theory Spec2Isabelle
  imports Complex_Main "HOL-Library.Word"
begin

section \<open>JavaScript values used by the home page\<close>

text \<open>
  A JavaScript string is a sequence of UTF-16 code units. The page's literals are partly
  Korean, so a string is a list of 16-bit words; \<open>ascii\<close> embeds an ASCII literal.
\<close>

type_synonym jsstring = "16 word list"

definition ascii :: "string \<Rightarrow> jsstring" where
  "ascii s = map of_char s"

text \<open>
  \<open>String.prototype.trim\<close> strips the code units that ECMAScript calls WhiteSpace or
  LineTerminator from both ends: TAB, LF, VT, FF, CR, SP, NBSP, the Unicode space
  separators (U+1680, U+2000..U+200A, U+202F, U+205F, U+3000), LS, PS and the BOM.
\<close>

definition isWhiteSpace :: "16 word \<Rightarrow> bool" where
  "isWhiteSpace c \<longleftrightarrow>
     c = 0x9 \<or> c = 0xA \<or> c = 0xB \<or> c = 0xC \<or> c = 0xD \<or> c = 0x20 \<or> c = 0xA0 \<or>
     c = 0x1680 \<or> (0x2000 \<le> c \<and> c \<le> 0x200A) \<or> c = 0x2028 \<or> c = 0x2029 \<or>
     c = 0x202F \<or> c = 0x205F \<or> c = 0x3000 \<or> c = 0xFEFF"

definition trim :: "jsstring \<Rightarrow> jsstring" where
  "trim s = rev (dropWhile isWhiteSpace (rev (dropWhile isWhiteSpace s)))"

text \<open>
  The value \<open>JSON.parse\<close> gives and \<open>JSON.stringify\<close> takes. A number is kept as the
  decimal text that \<open>ToString\<close> gives it; an object keeps its members in document order.
\<close>

datatype json =
    JNull
  | JBool bool
  | JNum jsstring
  | JStr jsstring
  | JArr "json list"
  | JObj "(jsstring \<times> json) list"

text \<open>
  A member of a parsed JSON object: the last of several equal keys wins, a missing key
  reads as \<open>undefined\<close> (\<open>None\<close>). A primitive or an array has no member of the names
  looked up here.
\<close>

fun object_member :: "json \<Rightarrow> jsstring \<Rightarrow> json option" where
  "object_member (JObj kvs) k = map_of (rev kvs) k"
| "object_member _ k = None"

fun join_comma :: "jsstring list \<Rightarrow> jsstring" where
  "join_comma [] = []"
| "join_comma [x] = x"
| "join_comma (x # y # ys) = x @ ascii '','' @ join_comma (y # ys)"

text \<open>
  \<open>ToString\<close>, as a template literal applies it; \<open>None\<close> is the TypeError it throws.
  An object is converted through its \<open>toString\<close> member: a parsed object that has an
  own member of that name holds a JSON value there, which cannot be called, and its
  \<open>valueOf\<close> gives no primitive either, so the conversion throws; without such a
  member \<open>Object.prototype.toString\<close> renders \<open>[object Object]\<close>. An array joins the
  conversions of its elements with commas, \<open>null\<close> elements empty, and throws when
  an element does.
\<close>

fun toString :: "json \<Rightarrow> jsstring option" where
  "toString JNull = Some (ascii ''null'')"
| "toString (JBool b) = Some (if b then ascii ''true'' else ascii ''false'')"
| "toString (JNum t) = Some t"
| "toString (JStr s) = Some s"
| "toString (JArr xs) =
     map_option join_comma (those (map (\<lambda>x. if x = JNull then Some [] else toString x) xs))"
| "toString (JObj kvs) =
     (if ascii ''toString'' \<in> fst ` set kvs then None else Some (ascii ''[object Object]''))"

section \<open>The home page: \<open>handleSubmit\<close> (frontend/src/app/page.tsx)\<close>

text \<open>
  The component state is the two \<open>useState\<close> cells. What the handler does to the world
  is a trace of effects, in the order of the calls. The network is the environment:
  \<open>fetch\<close> rejects or resolves to a response with its \<open>ok\<close> flag, whose \<open>json()\<close>
  rejects or resolves to a value.
\<close>

record page =
  address :: jsstring
  loading :: bool

record request_init =
  http_method :: jsstring \<comment> \<open>the \<open>method\<close> member\<close>
  headers :: "(jsstring \<times> jsstring) list"
  body :: json \<comment> \<open>the value handed to \<open>JSON.stringify\<close>\<close>

datatype thrown =
    FetchRejected
  | Error jsstring
  | JsonRejected
  | TypeError

text \<open>The value a template literal renders; \<open>undefined\<close> renders as its name.\<close>

definition template_value :: "json option \<Rightarrow> thrown + jsstring" where
  "template_value v =
     (case v of
        None \<Rightarrow> Inr (ascii ''undefined'')
      | Some x \<Rightarrow> (case toString x of None \<Rightarrow> Inl TypeError | Some t \<Rightarrow> Inr t))"

datatype effect =
    PreventDefault
  | Alert jsstring
  | SetLoading bool
  | Fetch jsstring request_init
  | ConsoleError thrown
  | RouterPush jsstring

datatype response_json = JsonRejects | JsonResolves json

datatype fetch_result = FetchRejects | FetchResolves bool response_json

definition msg_enter_address :: jsstring where
  "msg_enter_address =
     [0xC8FC, 0xC18C, 0xB97C, 0x20, 0xC785, 0xB825, 0xD574, 0xC8FC, 0xC138, 0xC694, 0x2E]"

definition msg_request_failed :: jsstring where
  "msg_request_failed = [0xBD84, 0xC11D, 0x20, 0xC694, 0xCCAD, 0x20, 0xC2E4, 0xD328]"

definition msg_try_again :: jsstring where
  "msg_try_again =
     [0xBD84, 0xC11D, 0x20, 0xC694, 0xCCAD, 0xC5D0, 0x20, 0xC2E4, 0xD328, 0xD588, 0xC2B5,
      0xB2C8, 0xB2E4, 0x2E, 0x20, 0xB2E4, 0xC2DC, 0x20, 0xC2DC, 0xB3C4, 0xD574, 0xC8FC,
      0xC138, 0xC694, 0x2E]"

definition analysis_url :: jsstring where
  "analysis_url = ascii ''http://localhost:8000/api/v1/analysis''"

definition analysis_request :: "jsstring \<Rightarrow> request_init" where
  "analysis_request addr =
     \<lparr> http_method = ascii ''POST'',
       headers = [(ascii ''Content-Type'', ascii ''application/json'')],
       body = JObj [(ascii ''address'', JStr addr),
                    (ascii ''building_type'', JStr (ascii ''house''))] \<rparr>"

text \<open>\<open>data.request_id\<close>: reading a member of \<open>null\<close> throws a TypeError.\<close>

definition request_id_of :: "json \<Rightarrow> thrown + json option" where
  "request_id_of data =
     (case data of JNull \<Rightarrow> Inl TypeError
      | _ \<Rightarrow> Inr (object_member data (ascii ''request_id'')))"

text \<open>
  The body of the \<open>try\<close> block: the effects it performs, and the exception that left it,
  if one did. The argument of \<open>router.push\<close> is evaluated before the call, so a
  template literal that throws leaves no navigation.
\<close>

definition try_block :: "fetch_result \<Rightarrow> jsstring \<Rightarrow> effect list \<times> thrown option" where
  "try_block net addr =
     (let call = Fetch analysis_url (analysis_request addr) in
      case net of
        FetchRejects \<Rightarrow> ([call], Some FetchRejected)
      | FetchResolves ok js \<Rightarrow>
          if \<not> ok then ([call], Some (Error msg_request_failed))
          else (case js of
                  JsonRejects \<Rightarrow> ([call], Some JsonRejected)
                | JsonResolves data \<Rightarrow>
                    (case request_id_of data of
                       Inl e \<Rightarrow> ([call], Some e)
                     | Inr v \<Rightarrow>
                         (case template_value v of
                            Inl e \<Rightarrow> ([call], Some e)
                          | Inr t \<Rightarrow> ([call, RouterPush (ascii ''/analysis/'' @ t)], None)))))"

definition catch_block :: "thrown option \<Rightarrow> effect list" where
  "catch_block t = (case t of None \<Rightarrow> [] | Some e \<Rightarrow> [ConsoleError e, Alert msg_try_again])"

definition handleSubmit :: "fetch_result \<Rightarrow> page \<Rightarrow> page \<times> effect list" where
  "handleSubmit net st =
     (if trim (address st) = [] then (st, [PreventDefault, Alert msg_enter_address])
      else
        let st1 = st\<lparr>loading := True\<rparr>;
            (effs, t) = try_block net (address st1);
            st2 = st1\<lparr>loading := False\<rparr>
        in (st2, [PreventDefault, SetLoading True] @ effs @ catch_block t @ [SetLoading False]))"

section \<open>The data of an analysis result\<close>

text \<open>
  The yield and the economics of a result, as the specification's data model (section 3)
  and the documented result (README, \<open>GET /api/v1/analysis/{request_id}\<close>) name
  them. Capacity (kW), generation (kWh) and the subsidy rate are rationals; every amount
  of money is an integer of the smallest currency unit (section 4.5). The payback is a
  number of years or "not recoverable".
\<close>

record yield_estimate =
  recommended_capacity :: rat
  monthly_generation :: "rat list"
  annual_generation :: rat

record rate_table =
  cost_per_kw :: int
  subsidy_rate :: rat
  subsidy_cap :: int
  tariff :: int

datatype payback = Years rat | NotRecoverable

record economic_profile =
  installation_cost :: int
  subsidy_amount :: int
  net_cost :: int
  annual_savings :: int
  payback_period :: payback

text \<open>
  The documented result: 18.0 kW and 3650.0 kWh a year, an installation cost of 9000000,
  a subsidy of 1800000, a net cost of 7200000, savings of 547500 a year and a payback of
  13.2 years. The README elides the monthly values, so the list is left empty here.
\<close>

definition documented_yield :: yield_estimate where
  "documented_yield =
     \<lparr> recommended_capacity = 18, monthly_generation = [], annual_generation = 3650 \<rparr>"

definition documented_economics :: economic_profile where
  "documented_economics =
     \<lparr> installation_cost = 9000000, subsidy_amount = 1800000, net_cost = 7200000,
       annual_savings = 547500, payback_period = Years (66 / 5) \<rparr>"

section \<open>The analysis pipeline and the request lifecycle\<close>

text \<open>
  The remaining data of the specification's data model (section 3). The fields follow
  the documented result: \<open>location\<close>, \<open>roof_analysis\<close>, \<open>solar_prediction\<close>,
  \<open>economic_analysis\<close>, \<open>environmental_impact\<close>.
\<close>

record location =
  loc_address :: jsstring
  latitude :: rat
  longitude :: rat
  region :: string

datatype orientation =
    North | NorthEast | East | SouthEast | South | SouthWest | West | NorthWest
  | UnknownOrientation

record roof_profile =
  roof_area :: rat
  usable_area :: rat
  roof_direction :: orientation
  roof_angle :: rat

record climate_series =
  series_region :: string
  monthly_irradiance :: "rat list"

record environmental_profile =
  co2_reduction :: rat
  tree_equivalent :: nat

datatype confidence_flag = AmbiguousAddress | RoofFallback | StaleClimate

datatype failure_reason =
    UnresolvableAddress
  | NoClimateData
  | ProviderExhausted
  | TimeoutExceeded
  | InternalFault

record analysis_result =
  res_request :: nat
  res_location :: location
  res_roof :: roof_profile
  res_yield :: yield_estimate
  res_economics :: economic_profile
  res_environment :: environmental_profile
  res_flags :: "confidence_flag list"

text \<open>
  What the external collaborators answer (section 6): a value or a signal. An ambiguous
  geocoding carries its candidates, the best-scoring one first. \<open>Exhausted\<close> is a
  provider that still times out after the bounded retries. The trained yield model is
  an opaque function; \<open>None\<close> is an internal computation fault. The Economics Engine
  is a parameter as well: the specification fixes its equations (section 4.5) but
  neither how the integer amounts are rounded nor which rate tables are malformed.
\<close>

datatype geocode_signal =
    Match location
  | Candidates location "location list"
  | NoMatch
  | GeocodeExhausted

datatype imagery_signal = Segmented roof_profile | ImageryUnavailable

datatype climate_signal =
    Fresh climate_series
  | Stale climate_series
  | CoverageMiss
  | ClimateExhausted

record providers =
  geocoding :: "jsstring \<Rightarrow> geocode_signal"
  imagery :: "location \<Rightarrow> imagery_signal"
  climate_store :: "string \<Rightarrow> climate_signal"
  rate_store :: "string \<Rightarrow> string \<Rightarrow> rate_table"
  heuristic_roof :: "string \<Rightarrow> roof_profile"
  yield_model :: "roof_profile \<Rightarrow> climate_series \<Rightarrow> string \<Rightarrow> yield_estimate option"
  economics_engine :: "yield_estimate \<Rightarrow> rate_table \<Rightarrow> economic_profile"
  co2_per_kwh :: rat
  trees_per_ton :: rat

text \<open>
  Modelled from the spec: the Geocoder (section 4.1; the backend is not among the
  sources). No match is the fatal \<open>UnresolvableAddress\<close>; an ambiguous address is
  recoverable: the best candidate is used and the result is flagged.
\<close>

definition geocoder :: "providers \<Rightarrow> jsstring \<Rightarrow> failure_reason + location \<times> confidence_flag list"
  where
  "geocoder p addr =
     (case geocoding p addr of
        Match l \<Rightarrow> Inr (l, [])
      | Candidates l ls \<Rightarrow> Inr (l, [AmbiguousAddress])
      | NoMatch \<Rightarrow> Inl UnresolvableAddress
      | GeocodeExhausted \<Rightarrow> Inl ProviderExhausted)"

text \<open>
  Modelled from the spec: the Roof Estimator (section 4.2). Without usable imagery it
  falls back to the building type's heuristic profile and flags the result; it does
  not fail.
\<close>

definition roof_estimator :: "providers \<Rightarrow> string \<Rightarrow> location \<Rightarrow> roof_profile \<times> confidence_flag list"
  where
  "roof_estimator p btype l =
     (case imagery p l of
        Segmented r \<Rightarrow> (r, [])
      | ImageryUnavailable \<Rightarrow> (heuristic_roof p btype, [RoofFallback]))"

text \<open>
  Modelled from the spec: the Climate Resolver (section 4.3). A region outside the
  coverage area is the fatal \<open>NoClimateData\<close>; stale data is used and flagged.
\<close>

definition climate_resolver ::
  "providers \<Rightarrow> string \<Rightarrow> failure_reason + climate_series \<times> confidence_flag list" where
  "climate_resolver p reg =
     (case climate_store p reg of
        Fresh c \<Rightarrow> Inr (c, [])
      | Stale c \<Rightarrow> Inr (c, [StaleClimate])
      | CoverageMiss \<Rightarrow> Inl NoClimateData
      | ClimateExhausted \<Rightarrow> Inl ProviderExhausted)"

text \<open>
  Modelled from the spec: the Environmental Engine (section 4.6), two linear
  conversions; the tree count is the whole part.
\<close>

definition environmental_engine :: "providers \<Rightarrow> rat \<Rightarrow> environmental_profile" where
  "environmental_engine p generation =
     (let co2 = generation * co2_per_kwh p
      in \<lparr> co2_reduction = co2, tree_equivalent = nat \<lfloor>co2 * trees_per_ton p\<rfloor> \<rparr>)"

text \<open>
  Modelled from the spec: the sequence of the components (section 2, control flow):
  Geocoder, then Roof Estimator and Climate Resolver, then Yield Predictor, then the
  Economics and Environmental Engines, then the assembly of the result. The first fatal
  error ends the run. Wall-clock time, and with it the timeout, is not part of the model.
\<close>

definition run_pipeline ::
  "providers \<Rightarrow> nat \<Rightarrow> jsstring \<Rightarrow> string \<Rightarrow> failure_reason + analysis_result" where
  "run_pipeline p rid addr btype =
     (case geocoder p addr of
        Inl e \<Rightarrow> Inl e
      | Inr (l, f1) \<Rightarrow>
          (case roof_estimator p btype l of
             (roof, f2) \<Rightarrow>
               (case climate_resolver p (region l) of
                  Inl e \<Rightarrow> Inl e
                | Inr (clim, f3) \<Rightarrow>
                    (case yield_model p roof clim btype of
                       None \<Rightarrow> Inl InternalFault
                     | Some y \<Rightarrow>
                         Inr \<lparr> res_request = rid,
                               res_location = l,
                               res_roof = roof,
                               res_yield = y,
                               res_economics =
                                 economics_engine p y (rate_store p btype (region l)),
                               res_environment = environmental_engine p (annual_generation y),
                               res_flags = f1 @ f2 @ f3 \<rparr>))))"

text \<open>
  Modelled from the spec: the request record and its state machine (sections 3 and
  4.7). Work begins on a pending request only; a result or an error is attached to a
  processing request only; every other event leaves the record as it is.
\<close>

datatype status = Pending | Processing | Completed | Failed

record analysis_request =
  req_id :: nat
  req_status :: status
  req_result :: "analysis_result option"
  req_error :: "failure_reason option"

datatype lifecycle_event = BeginWork | Complete analysis_result | Fail failure_reason

definition new_request :: "nat \<Rightarrow> analysis_request" where
  "new_request rid =
     \<lparr> req_id = rid, req_status = Pending, req_result = None, req_error = None \<rparr>"

fun transition :: "analysis_request \<Rightarrow> lifecycle_event \<Rightarrow> analysis_request" where
  "transition r BeginWork =
     (if req_status r = Pending then r\<lparr>req_status := Processing\<rparr> else r)"
| "transition r (Complete res) =
     (if req_status r = Processing
      then r\<lparr>req_status := Completed, req_result := Some res\<rparr> else r)"
| "transition r (Fail e) =
     (if req_status r = Processing
      then r\<lparr>req_status := Failed, req_error := Some e\<rparr> else r)"

definition orchestrate ::
  "providers \<Rightarrow> analysis_request \<Rightarrow> jsstring \<Rightarrow> string \<Rightarrow> analysis_request" where
  "orchestrate p r addr btype =
     (let r1 = transition r BeginWork in
      case run_pipeline p (req_id r) addr btype of
        Inl e \<Rightarrow> transition r1 (Fail e)
      | Inr res \<Rightarrow> transition r1 (Complete res))"

definition allowed_moves :: "(status \<times> status) set" where
  "allowed_moves = {(Pending, Processing), (Processing, Completed), (Processing, Failed)}"

definition terminal :: "analysis_request \<Rightarrow> bool" where
  "terminal r \<longleftrightarrow> req_status r = Completed \<or> req_status r = Failed"

text \<open>
  Fixtures after the documented result: the address of the README resolves to Suwon in
  Gyeonggi (ambiguously, with a second candidate), with the documented roof, yield and
  economics and the conversion factors that give the documented 1.55 t of CO2 and 235
  trees; no
  imagery is available and the climate data is stale. An address in Busan lies outside
  the climate coverage.
\<close>

definition suwon_address :: jsstring where
  "suwon_address =
     [0xACBD, 0xAE30, 0xB3C4, 0x20, 0xC218, 0xC6D0, 0xC2DC, 0x20, 0xC601, 0xD1B5, 0xAD6C,
      0x20, 0xAD11, 0xAD50, 0xB85C, 0x20, 0x31, 0x35, 0x36]"

definition suwon :: location where
  "suwon = \<lparr> loc_address = suwon_address, latitude = 372858 / 10000,
             longitude = 1270444 / 10000, region = ''gyeonggi'' \<rparr>"

definition busan :: location where
  "busan = \<lparr> loc_address = ascii ''Busan'', latitude = 351796 / 10000,
             longitude = 1290756 / 10000, region = ''busan'' \<rparr>"

definition fixture :: providers where
  "fixture =
     \<lparr> geocoding = (\<lambda>a. if a = suwon_address
                           then Candidates suwon [suwon\<lparr>latitude := 372900 / 10000\<rparr>]
                         else if a = ascii ''Busan'' then Match busan else NoMatch),
       imagery = (\<lambda>l. ImageryUnavailable),
       climate_store = (\<lambda>r. if r = ''gyeonggi''
                              then Stale \<lparr> series_region = ''gyeonggi'',
                                           monthly_irradiance = replicate 12 4 \<rparr>
                              else CoverageMiss),
       rate_store = (\<lambda>b r. \<lparr> cost_per_kw = 500000, subsidy_rate = 1 / 5,
                                  subsidy_cap = 3000000, tariff = 150 \<rparr>),
       heuristic_roof = (\<lambda>b. \<lparr> roof_area = 150, usable_area = 135, roof_direction = South,
                                roof_angle = 25 \<rparr>),
       yield_model = (\<lambda>r c b. Some documented_yield),
       economics_engine = (\<lambda>y t. documented_economics),
       co2_per_kwh = 31 / 73000,
       trees_per_ton = 4700 / 31 \<rparr>"

section \<open>The in-flight registry and the result cache\<close>

text \<open>
  Modelled from the spec: the fingerprint-keyed registry and cache (section 5; the
  backend is not among the sources). The two are the only shared state and every access
  is one atomic step, so a run of the service is a sequence of events. A submission
  creates a handle that refers to its fingerprint; it starts a computation only when the
  fingerprint is neither cached nor in flight. The list \<open>started\<close> logs every
  computation begun.
\<close>

type_synonym fingerprint = "jsstring \<times> string"

datatype outcome = Succeeded analysis_result | Errored failure_reason

record service =
  handles :: "fingerprint list"
  in_flight :: "fingerprint list"
  cache :: "fingerprint \<Rightarrow> outcome option"
  started :: "fingerprint list"

datatype service_event =
    Submit fingerprint
  | Finish fingerprint outcome
  | Expire fingerprint

definition empty_service :: service where
  "empty_service = \<lparr> handles = [], in_flight = [], cache = (\<lambda>fp. None), started = [] \<rparr>"

fun serve :: "service \<Rightarrow> service_event \<Rightarrow> service" where
  "serve s (Submit fp) =
     (let s1 = s\<lparr>handles := handles s @ [fp]\<rparr> in
      if cache s fp \<noteq> None \<or> fp \<in> set (in_flight s) then s1
      else s1\<lparr>in_flight := fp # in_flight s, started := fp # started s\<rparr>)"
| "serve s (Finish fp out) =
     (if fp \<in> set (in_flight s)
      then s\<lparr>in_flight := remove1 fp (in_flight s), cache := (cache s)(fp \<mapsto> out)\<rparr>
      else s)"
| "serve s (Expire fp) = s\<lparr>cache := (cache s)(fp := None)\<rparr>"

definition serve_all :: "service \<Rightarrow> service_event list \<Rightarrow> service" where
  "serve_all s es = foldl serve s es"

datatype view = UnknownHandle | InProgress | Done outcome | Expired

definition get_result :: "service \<Rightarrow> nat \<Rightarrow> view" where
  "get_result s h =
     (if length (handles s) \<le> h then UnknownHandle
      else let fp = handles s ! h in
        case cache s fp of
          Some out \<Rightarrow> Done out
        | None \<Rightarrow> if fp \<in> set (in_flight s) then InProgress else Expired)"

fun finishes :: "fingerprint \<Rightarrow> service_event \<Rightarrow> bool" where
  "finishes fp (Finish fp' out) = (fp' = fp)"
| "finishes fp _ = False"

section \<open>Properties of \<open>handleSubmit\<close>\<close>

lemma dropWhile_all_Nil:
  assumes "\<forall>c\<in>set (dropWhile P s). P c"
  shows "dropWhile P s = []"
proof (rule ccontr)
  assume ne: "dropWhile P s \<noteq> []"
  then have "\<not> P (hd (dropWhile P s))" by (rule hd_dropWhile)
  moreover from ne have "hd (dropWhile P s) \<in> set (dropWhile P s)" by (rule hd_in_set)
  ultimately show False using assms by blast
qed

text \<open>The trim of a string is empty exactly when every code unit of it is white space.\<close>

lemma trim_empty_iff: "trim s = [] \<longleftrightarrow> (\<forall>c\<in>set s. isWhiteSpace c)"
proof
  assume "trim s = []"
  then have "\<forall>c\<in>set (dropWhile isWhiteSpace s). isWhiteSpace c"
    by (simp add: trim_def dropWhile_eq_Nil_conv)
  then have "dropWhile isWhiteSpace s = []" by (rule dropWhile_all_Nil)
  then show "\<forall>c\<in>set s. isWhiteSpace c" by (simp add: dropWhile_eq_Nil_conv)
next
  assume "\<forall>c\<in>set s. isWhiteSpace c"
  then have "dropWhile isWhiteSpace s = []" by (simp add: dropWhile_eq_Nil_conv)
  then show "trim s = []" by (simp only: trim_def rev.simps dropWhile.simps)
qed

lemma try_block_fetch:
  "Fetch url init \<in> set (fst (try_block net addr)) \<Longrightarrow>
     url = analysis_url \<and> init = analysis_request addr"
  by (auto simp: try_block_def Let_def
           split: fetch_result.splits response_json.splits sum.splits if_splits)

lemma try_block_sends:
  "Fetch analysis_url (analysis_request addr) \<in> set (fst (try_block net addr))"
  by (simp add: try_block_def Let_def
           split: fetch_result.splits response_json.splits sum.splits)

lemma try_block_push:
  "RouterPush p \<in> set (fst (try_block net addr)) \<Longrightarrow>
     \<exists>data v t. net = FetchResolves True (JsonResolves data) \<and> request_id_of data = Inr v
            \<and> template_value v = Inr t \<and> p = ascii ''/analysis/'' @ t"
  by (auto simp: try_block_def Let_def
           split: fetch_result.splits response_json.splits sum.splits if_splits)

lemma catch_block_no_push: "RouterPush p \<notin> set (catch_block t)"
  by (simp add: catch_block_def split: option.splits)

lemma handleSubmit_push:
  assumes "RouterPush p \<in> set (snd (handleSubmit net st))"
  shows "\<exists>data v t. net = FetchResolves True (JsonResolves data) \<and> request_id_of data = Inr v
            \<and> template_value v = Inr t \<and> p = ascii ''/analysis/'' @ t"
proof (cases "trim (address st) = []")
  case True
  with assms show ?thesis by (simp add: handleSubmit_def)
next
  case False
  with assms have "RouterPush p \<in> set (fst (try_block net (address st)))"
    by (auto simp: handleSubmit_def Let_def catch_block_no_push split: prod.splits)
  then show ?thesis by (rule try_block_push)
qed

text \<open>
  C1. An address whose trim is empty (the empty string, or white space only) is rejected
  at once: the handler shows the "enter an address" alert and returns, the component
  state is as it was, and no request goes to the analysis endpoint, whatever the network
  would have answered.
\<close>

theorem handleSubmit_blank_address_no_request:
  assumes "trim (address st) = []"
  shows "handleSubmit net st = (st, [PreventDefault, Alert msg_enter_address])
       \<and> (\<forall>url init. Fetch url init \<notin> set (snd (handleSubmit net st)))"
  using assms by (simp add: handleSubmit_def)

theorem handleSubmit_blank_address_no_request_witness:
  "trim (address \<lparr>address = [0x20, 0x9, 0x3000], loading = False\<rparr>) = []
   \<and> handleSubmit FetchRejects \<lparr>address = [0x20, 0x9, 0x3000], loading = False\<rparr>
       = (\<lparr>address = [0x20, 0x9, 0x3000], loading = False\<rparr>,
          [PreventDefault, Alert msg_enter_address])
   \<and> (\<forall>url init. Fetch url init \<notin>
         set (snd (handleSubmit FetchRejects
                     \<lparr>address = [0x20, 0x9, 0x3000], loading = False\<rparr>)))"
  using handleSubmit_blank_address_no_request
          [of "\<lparr>address = [0x20, 0x9, 0x3000], loading = False\<rparr>" FetchRejects]
  by (simp add: trim_def isWhiteSpace_def)

text \<open>
  C9. Every submission that passes the address check sends a request to the analysis
  endpoint, whether the network then rejects, answers not ok, or answers: the trace
  holds the fetch of the endpoint with the body
  \<open>{address: <the address typed>, building_type: 'house'}\<close>. Every fetch in a trace
  of the handler is that one: its \<open>building_type\<close> member is \<open>house\<close> for every
  address and every answer of the network. The component state has no building type,
  so nothing the user enters can change it.
\<close>

theorem handleSubmit_building_type_house:
  "(trim (address st) \<noteq> [] \<longrightarrow>
      Fetch analysis_url (analysis_request (address st)) \<in> set (snd (handleSubmit net st)))
   \<and> (Fetch url init \<in> set (snd (handleSubmit net st)) \<longrightarrow>
        object_member (body init) (ascii ''building_type'') = Some (JStr (ascii ''house''))
        \<and> body init = JObj [(ascii ''address'', JStr (address st)),
                             (ascii ''building_type'', JStr (ascii ''house''))]
        \<and> url = analysis_url
        \<and> init = analysis_request (address st))"
proof -
  have sends: "trim (address st) \<noteq> [] \<longrightarrow>
      Fetch analysis_url (analysis_request (address st)) \<in> set (snd (handleSubmit net st))"
    using try_block_sends [of "address st" net]
    by (auto simp: handleSubmit_def Let_def split: prod.splits)
  have only: "object_member (body init) (ascii ''building_type'') = Some (JStr (ascii ''house''))
        \<and> body init = JObj [(ascii ''address'', JStr (address st)),
                             (ascii ''building_type'', JStr (ascii ''house''))]
        \<and> url = analysis_url
        \<and> init = analysis_request (address st)"
    if sent: "Fetch url init \<in> set (snd (handleSubmit net st))"
  proof -
    from sent have "Fetch url init \<in> set (fst (try_block net (address st)))"
      by (auto simp: handleSubmit_def Let_def catch_block_def
               split: if_splits prod.splits option.splits)
    then have "url = analysis_url" and "init = analysis_request (address st)"
      using try_block_fetch by blast+
    then show ?thesis
      by (simp add: analysis_request_def ascii_def)
  qed
  from sends only show ?thesis by blast
qed

theorem handleSubmit_building_type_house_witness:
  "trim (address \<lparr>address = suwon_address, loading = False\<rparr>) \<noteq> []
   \<and> Fetch analysis_url (analysis_request suwon_address)
       \<in> set (snd (handleSubmit
                     (FetchResolves True
                        (JsonResolves (JObj [(ascii ''request_id'', JStr (ascii ''r1''))])))
                     \<lparr>address = suwon_address, loading = False\<rparr>))
   \<and> object_member (body (analysis_request suwon_address)) (ascii ''building_type'')
       = Some (JStr (ascii ''house''))
   \<and> trim (address \<lparr>address = ascii '' Busan '', loading = False\<rparr>) \<noteq> []
   \<and> Fetch analysis_url (analysis_request (ascii '' Busan ''))
       \<in> set (snd (handleSubmit FetchRejects \<lparr>address = ascii '' Busan '', loading = False\<rparr>))
   \<and> object_member (body (analysis_request (ascii '' Busan ''))) (ascii ''building_type'')
       = Some (JStr (ascii ''house''))"
proof -
  let ?answer = "FetchResolves True (JsonResolves (JObj [(ascii ''request_id'', JStr (ascii ''r1''))]))"
  let ?s1 = "\<lparr>address = suwon_address, loading = False\<rparr>"
  let ?s2 = "\<lparr>address = ascii '' Busan '', loading = False\<rparr>"
  have t1: "trim (address ?s1) \<noteq> []"
    by (simp add: trim_def isWhiteSpace_def suwon_address_def)
  have t2: "trim (address ?s2) \<noteq> []"
    by (simp add: trim_def isWhiteSpace_def ascii_def)
  note a = handleSubmit_building_type_house
             [of ?s1 ?answer analysis_url "analysis_request suwon_address"]
  note b = handleSubmit_building_type_house
             [of ?s2 FetchRejects analysis_url "analysis_request (ascii '' Busan '')"]
  from a t1 have m1: "Fetch analysis_url (analysis_request suwon_address)
       \<in> set (snd (handleSubmit ?answer ?s1))" by simp
  from b t2 have m2: "Fetch analysis_url (analysis_request (ascii '' Busan ''))
       \<in> set (snd (handleSubmit FetchRejects ?s2))" by simp
  from a m1 have h1: "object_member (body (analysis_request suwon_address))
       (ascii ''building_type'') = Some (JStr (ascii ''house''))" by blast
  from b m2 have h2: "object_member (body (analysis_request (ascii '' Busan '')))
       (ascii ''building_type'') = Some (JStr (ascii ''house''))" by blast
  from t1 t2 m1 m2 h1 h2 show ?thesis by blast
qed

text \<open>
  C10. The handler navigates only after a response whose \<open>ok\<close> flag is true: when
  \<open>fetch\<close> rejects, or the response is not ok, \<open>router.push\<close> is not called. Every run
  that gets past the address check ends with \<open>setLoading(false)\<close> as its last effect and
  with the flag false, on success as on failure; and a run entered with the flag false
  (the form is disabled while it is true) leaves it false in every case.
\<close>

theorem handleSubmit_push_only_when_ok:
  "((net = FetchRejects \<or> (\<exists>js. net = FetchResolves False js)) \<longrightarrow>
       (\<forall>p. RouterPush p \<notin> set (snd (handleSubmit net st))))
   \<and> (trim (address st) \<noteq> [] \<longrightarrow>
         \<not> loading (fst (handleSubmit net st))
         \<and> last (snd (handleSubmit net st)) = SetLoading False)
   \<and> (\<not> loading st \<longrightarrow> \<not> loading (fst (handleSubmit net st)))"
proof -
  have a: "(net = FetchRejects \<or> (\<exists>js. net = FetchResolves False js)) \<longrightarrow>
       (\<forall>p. RouterPush p \<notin> set (snd (handleSubmit net st)))"
    using handleSubmit_push [of _ net st] by auto
  have b: "trim (address st) \<noteq> [] \<longrightarrow>
         \<not> loading (fst (handleSubmit net st))
         \<and> last (snd (handleSubmit net st)) = SetLoading False"
    by (simp add: handleSubmit_def Let_def split: prod.splits)
  have c: "\<not> loading st \<longrightarrow> \<not> loading (fst (handleSubmit net st))"
    by (simp add: handleSubmit_def Let_def split: prod.splits)
  from a b c show ?thesis by blast
qed

theorem handleSubmit_push_only_when_ok_witness:
  "(\<forall>p. RouterPush p \<notin>
       set (snd (handleSubmit (FetchResolves False JsonRejects)
                   \<lparr>address = ascii ''Suwon 156'', loading = False\<rparr>)))
   \<and> \<not> loading (fst (handleSubmit (FetchResolves False JsonRejects)
                       \<lparr>address = ascii ''Suwon 156'', loading = False\<rparr>))
   \<and> last (snd (handleSubmit (FetchResolves False JsonRejects)
                  \<lparr>address = ascii ''Suwon 156'', loading = False\<rparr>)) = SetLoading False"
proof -
  have t: "trim (address \<lparr>address = ascii ''Suwon 156'', loading = False\<rparr>) \<noteq> []"
    by (simp add: trim_def isWhiteSpace_def ascii_def)
  from handleSubmit_push_only_when_ok
         [of "FetchResolves False JsonRejects"
             "\<lparr>address = ascii ''Suwon 156'', loading = False\<rparr>"] t
  show ?thesis by blast
qed

section \<open>Properties of the request lifecycle\<close>

lemma transition_move:
  "(req_status r, req_status (transition r e)) \<in> allowed_moves \<or> transition r e = r"
  by (cases e) (simp_all add: allowed_moves_def)

lemma transition_terminal: "terminal r \<Longrightarrow> transition r e = r"
  by (cases e) (auto simp: terminal_def)

lemma transitions_terminal: "terminal r \<Longrightarrow> foldl transition r es = r"
  by (induction es) (simp_all add: transition_terminal)

lemma orchestrate_completed:
  assumes "req_status r = Pending" and "geocoder p addr = Inr (l, f1)"
    and "roof_estimator p btype l = (roof, f2)"
    and "climate_resolver p (region l) = Inr (clim, f3)"
    and "yield_model p roof clim btype = Some y"
  shows "req_status (orchestrate p r addr btype) = Completed
       \<and> req_error (orchestrate p r addr btype) = req_error r
       \<and> (\<exists>res. req_result (orchestrate p r addr btype) = Some res
                \<and> res_flags res = f1 @ f2 @ f3 \<and> res_yield res = y)"
  using assms by (simp add: orchestrate_def run_pipeline_def)

lemma orchestrate_failed:
  assumes "req_status r = Pending" and "req_status (orchestrate p r addr btype) = Failed"
  shows "geocoding p addr = NoMatch \<or> geocoding p addr = GeocodeExhausted
       \<or> (\<exists>l f. geocoder p addr = Inr (l, f) \<and>
             (climate_store p (region l) = CoverageMiss
              \<or> climate_store p (region l) = ClimateExhausted
              \<or> (\<exists>clim f3. climate_resolver p (region l) = Inr (clim, f3) \<and> yield_model p (fst (roof_estimator p btype l)) clim btype = None)))"
  using assms
  by (auto simp: orchestrate_def run_pipeline_def geocoder_def climate_resolver_def
           split: geocode_signal.splits climate_signal.splits sum.splits prod.splits option.splits if_splits)

lemma degraded_signals:
  "(geocoding p addr = Candidates l ls \<longrightarrow> geocoder p addr = Inr (l, [AmbiguousAddress]))
   \<and> (imagery p l = ImageryUnavailable \<longrightarrow>
        roof_estimator p btype l = (heuristic_roof p btype, [RoofFallback]))
   \<and> (climate_store p reg = Stale clim \<longrightarrow> climate_resolver p reg = Inr (clim, [StaleClimate]))"
  by (simp add: geocoder_def roof_estimator_def climate_resolver_def)

text \<open>
  C6. A request record moves along pending, processing, completed or failed only:
  every event either leaves the record as it is or takes one of these three moves, and
  no sequence of events changes a record that is completed or failed. An ambiguous
  address, a missing roof image and stale climate data are answered with a flagged
  value, not an error; when the geocoder, the climate resolver and the yield model
  answer, flagged or not, a pending request ends completed with the flags on its
  result; and a pending request ends failed only when the geocoder found no match or
  was exhausted, or the climate store had no coverage or was exhausted, or the yield
  model faulted.
\<close>

theorem lifecycle_moves_and_degradations:
  "((req_status r, req_status (transition r e)) \<in> allowed_moves \<or> transition r e = r)
   \<and> (terminal r \<longrightarrow> foldl transition r es = r)
   \<and> (geocoding p addr = Candidates l ls \<longrightarrow> geocoder p addr = Inr (l, [AmbiguousAddress]))
   \<and> (imagery p l = ImageryUnavailable \<longrightarrow>
        roof_estimator p btype l = (heuristic_roof p btype, [RoofFallback]))
   \<and> (climate_store p reg = Stale clim \<longrightarrow> climate_resolver p reg = Inr (clim, [StaleClimate]))
   \<and> (req_status r = Pending \<and> geocoder p addr = Inr (l, f1)
        \<and> roof_estimator p btype l = (roof, f2)
        \<and> climate_resolver p (region l) = Inr (c, f3)
        \<and> yield_model p roof c btype = Some y \<longrightarrow>
          req_status (orchestrate p r addr btype) = Completed
          \<and> req_error (orchestrate p r addr btype) = req_error r
          \<and> (\<exists>res. req_result (orchestrate p r addr btype) = Some res
                   \<and> res_flags res = f1 @ f2 @ f3 \<and> res_yield res = y))
   \<and> (req_status r = Pending \<and> req_status (orchestrate p r addr btype) = Failed \<longrightarrow>
          geocoding p addr = NoMatch \<or> geocoding p addr = GeocodeExhausted
          \<or> (\<exists>l' f. geocoder p addr = Inr (l', f) \<and>
                (climate_store p (region l') = CoverageMiss
                 \<or> climate_store p (region l') = ClimateExhausted
                 \<or> (\<exists>c' f'. climate_resolver p (region l') = Inr (c', f')
                       \<and> yield_model p (fst (roof_estimator p btype l')) c' btype = None))))"
proof -
  note a = transition_move [of r e]
  have b: "terminal r \<longrightarrow> foldl transition r es = r"
    using transitions_terminal by blast
  note c = degraded_signals [of p addr l ls btype reg clim]
  have d: "req_status r = Pending \<and> geocoder p addr = Inr (l, f1)
        \<and> roof_estimator p btype l = (roof, f2)
        \<and> climate_resolver p (region l) = Inr (c, f3)
        \<and> yield_model p roof c btype = Some y \<longrightarrow>
          req_status (orchestrate p r addr btype) = Completed
          \<and> req_error (orchestrate p r addr btype) = req_error r
          \<and> (\<exists>res. req_result (orchestrate p r addr btype) = Some res
                   \<and> res_flags res = f1 @ f2 @ f3 \<and> res_yield res = y)"
    using orchestrate_completed [of r p addr l f1 btype roof f2 c f3 y] by blast
  have e: "req_status r = Pending \<and> req_status (orchestrate p r addr btype) = Failed \<longrightarrow>
          geocoding p addr = NoMatch \<or> geocoding p addr = GeocodeExhausted
          \<or> (\<exists>l' f. geocoder p addr = Inr (l', f) \<and>
                (climate_store p (region l') = CoverageMiss
                 \<or> climate_store p (region l') = ClimateExhausted
                 \<or> (\<exists>c' f'. climate_resolver p (region l') = Inr (c', f')
                       \<and> yield_model p (fst (roof_estimator p btype l')) c' btype = None)))"
    using orchestrate_failed [of r p addr btype] by blast
  from a b c d e show ?thesis by (intro conjI) blast+
qed

lemma fixture_suwon:
  "geocoding fixture suwon_address = Candidates suwon [suwon\<lparr>latitude := 372900 / 10000\<rparr>]"
  "imagery fixture suwon = ImageryUnavailable"
  "climate_store fixture (region suwon)
     = Stale \<lparr> series_region = ''gyeonggi'', monthly_irradiance = replicate 12 4 \<rparr>"
  "yield_model fixture (heuristic_roof fixture ''house'')
     \<lparr> series_region = ''gyeonggi'', monthly_irradiance = replicate 12 4 \<rparr> ''house''
     = Some documented_yield"
  by (simp_all add: fixture_def suwon_def)

theorem lifecycle_moves_and_degradations_witness:
  "req_status (new_request 7) = Pending
   \<and> req_status (orchestrate fixture (new_request 7) suwon_address ''house'') = Completed
   \<and> req_error (orchestrate fixture (new_request 7) suwon_address ''house'') = None
   \<and> (\<exists>res. req_result (orchestrate fixture (new_request 7) suwon_address ''house'') = Some res
            \<and> res_flags res = [AmbiguousAddress, RoofFallback, StaleClimate]
            \<and> res_yield res = documented_yield)
   \<and> terminal (orchestrate fixture (new_request 7) suwon_address ''house'')
   \<and> foldl transition (orchestrate fixture (new_request 7) suwon_address ''house'')
         [BeginWork, Fail TimeoutExceeded]
       = orchestrate fixture (new_request 7) suwon_address ''house''"
proof -
  let ?clim = "\<lparr> series_region = ''gyeonggi'', monthly_irradiance = replicate 12 4 \<rparr>"
  note t = lifecycle_moves_and_degradations
             [of "new_request 7" BeginWork "[BeginWork, Fail TimeoutExceeded]" fixture
                 suwon_address suwon "[suwon\<lparr>latitude := 372900 / 10000\<rparr>]" "''house''"
                 "region suwon" ?clim "[AmbiguousAddress]" "heuristic_roof fixture ''house''"
                 "[RoofFallback]" ?clim "[StaleClimate]" documented_yield]
  have p: "req_status (new_request 7) = Pending" "req_error (new_request 7) = None"
    by (simp_all add: new_request_def)
  from t fixture_suwon have g: "geocoder fixture suwon_address = Inr (suwon, [AmbiguousAddress])"
    and r: "roof_estimator fixture ''house'' suwon
              = (heuristic_roof fixture ''house'', [RoofFallback])"
    and c: "climate_resolver fixture (region suwon) = Inr (?clim, [StaleClimate])"
    by blast+
  from t p g r c fixture_suwon(4)
  have fine: "req_status (orchestrate fixture (new_request 7) suwon_address ''house'') = Completed
          \<and> req_error (orchestrate fixture (new_request 7) suwon_address ''house'') = None
          \<and> (\<exists>res. req_result (orchestrate fixture (new_request 7) suwon_address ''house'')
                      = Some res
                   \<and> res_flags res = [AmbiguousAddress] @ [RoofFallback] @ [StaleClimate]
                   \<and> res_yield res = documented_yield)"
    by simp
  then have fin: "terminal (orchestrate fixture (new_request 7) suwon_address ''house'')"
    by (simp add: terminal_def)
  have "terminal r \<longrightarrow> foldl transition r [BeginWork, Fail TimeoutExceeded] = r" for r
    using lifecycle_moves_and_degradations [of r BeginWork "[BeginWork, Fail TimeoutExceeded]"]
    by blast
  with fin have "foldl transition (orchestrate fixture (new_request 7) suwon_address ''house'')
         [BeginWork, Fail TimeoutExceeded]
       = orchestrate fixture (new_request 7) suwon_address ''house''"
    by blast
  with fine fin p(1) show ?thesis by simp
qed

text \<open>
  C7. When the geocoder resolves the address (to a match, or to the best candidate of
  an ambiguous one) and the climate store has no coverage for the region of that
  location, a new request ends in status failed with the reason \<open>NoClimateData\<close> and
  without a result.
\<close>

theorem no_coverage_fails_request:
  assumes "geocoder p addr = Inr (l, f1)" and "climate_store p (region l) = CoverageMiss"
  shows "orchestrate p (new_request rid) addr btype
           = \<lparr> req_id = rid, req_status = Failed, req_result = None,
               req_error = Some NoClimateData \<rparr>"
  using assms
  by (simp add: orchestrate_def run_pipeline_def climate_resolver_def new_request_def
           split: prod.splits)

theorem no_coverage_fails_request_witness:
  "geocoder fixture (ascii ''Busan'') = Inr (busan, [])
   \<and> climate_store fixture (region busan) = CoverageMiss
   \<and> orchestrate fixture (new_request 7) (ascii ''Busan'') ''house''
       = \<lparr> req_id = 7, req_status = Failed, req_result = None,
           req_error = Some NoClimateData \<rparr>"
proof -
  have g: "geocoder fixture (ascii ''Busan'') = Inr (busan, [])"
    by (simp add: geocoder_def fixture_def suwon_address_def ascii_def)
  have c: "climate_store fixture (region busan) = CoverageMiss"
    by (simp add: fixture_def busan_def)
  from no_coverage_fails_request [OF g c] g c show ?thesis by simp
qed

section \<open>Properties of the in-flight registry\<close>

lemma count_list_distinct: "distinct xs \<Longrightarrow> count_list xs x \<le> 1"
  by (induction xs) auto

lemma serve_distinct: "distinct (in_flight s) \<Longrightarrow> distinct (in_flight (serve s e))"
  by (cases e) (auto simp: Let_def)

lemma serve_all_distinct: "distinct (in_flight s) \<Longrightarrow> distinct (in_flight (serve_all s es))"
  unfolding serve_all_def
  by (induction es arbitrary: s) (simp_all add: serve_distinct)

lemma serve_keeps_in_flight:
  "fp \<in> set (in_flight s) \<Longrightarrow> \<not> finishes fp e \<Longrightarrow>
     fp \<in> set (in_flight (serve s e)) \<and> count_list (started (serve s e)) fp = count_list (started s) fp"
  by (cases e) (auto simp: Let_def)

lemma serve_all_keeps_in_flight:
  "fp \<in> set (in_flight s) \<Longrightarrow> \<forall>e\<in>set es. \<not> finishes fp e \<Longrightarrow>
     fp \<in> set (in_flight (serve_all s es))
     \<and> count_list (started (serve_all s es)) fp = count_list (started s) fp"
  unfolding serve_all_def
proof (induction es arbitrary: s)
  case Nil
  then show ?case by simp
next
  case (Cons e es)
  from Cons.prems have k: "fp \<in> set (in_flight (serve s e))"
    "count_list (started (serve s e)) fp = count_list (started s) fp"
    using serve_keeps_in_flight [of fp s e] by simp_all
  from Cons.IH [OF k(1)] Cons.prems(2) k(2) show ?case by simp
qed

lemma serve_handles: "\<exists>hs. handles (serve s e) = handles s @ hs"
  by (cases e) (auto simp: Let_def)

lemma serve_all_handles: "\<exists>hs. handles (serve_all s es) = handles s @ hs"
  unfolding serve_all_def
proof (induction es arbitrary: s)
  case Nil
  then show ?case by simp
next
  case (Cons e es)
  obtain h1 where "handles (serve s e) = handles s @ h1" using serve_handles by blast
  moreover obtain h2 where "handles (foldl serve (serve s e) es) = handles (serve s e) @ h2"
    using Cons.IH by blast
  ultimately show ?case by simp
qed

lemma get_result_same_fingerprint:
  assumes "h1 < length (handles s)" and "h2 < length (handles s)"
    and "handles s ! h1 = handles s ! h2"
  shows "get_result s h1 = get_result s h2"
  using assms by (simp add: get_result_def Let_def)

lemma two_submissions:
  assumes fresh: "cache s fp = None" "fp \<notin> set (in_flight s)"
    and nofin: "\<forall>e\<in>set es. \<not> finishes fp e"
  shows "count_list (started (serve_all s (Submit fp # es @ [Submit fp]))) fp
           = count_list (started s) fp + 1"
    and "get_result (serve_all (serve_all s (Submit fp # es @ [Submit fp])) later)
                        (length (handles s))
                    = get_result (serve_all (serve_all s (Submit fp # es @ [Submit fp])) later)
                        (length (handles (serve_all s (Submit fp # es))))"
proof -
  define s1 where "s1 = serve s (Submit fp)"
  define s2 where "s2 = serve_all s1 es"
  define s3 where "s3 = serve s2 (Submit fp)"
  define s4 where "s4 = serve_all s3 later"
  have s1: "fp \<in> set (in_flight s1)" "count_list (started s1) fp = count_list (started s) fp + 1"
    "handles s1 = handles s @ [fp]"
    using fresh by (simp_all add: s1_def Let_def)
  from serve_all_keeps_in_flight [OF s1(1) nofin]
  have s2: "fp \<in> set (in_flight s2)" "count_list (started s2) fp = count_list (started s1) fp"
    by (simp_all add: s2_def)
  have s3: "started s3 = started s2" "handles s3 = handles s2 @ [fp]"
    using s2(1) by (simp_all add: s3_def Let_def)
  have run: "serve_all s (Submit fp # es @ [Submit fp]) = s3"
    by (simp add: serve_all_def s1_def s2_def s3_def)
  have run2: "serve_all s (Submit fp # es) = s2"
    by (simp add: serve_all_def s1_def s2_def)
  obtain hs where hs: "handles s2 = handles s1 @ hs"
    unfolding s2_def using serve_all_handles by blast
  obtain more where more: "handles s4 = handles s3 @ more"
    unfolding s4_def using serve_all_handles by blast
  have all2: "handles s4 = handles s2 @ fp # more"
    by (simp add: more s3(2))
  have all1: "handles s4 = handles s @ fp # (hs @ fp # more)"
    by (simp add: all2 hs s1(3))
  have a: "handles s4 ! length (handles s) = fp"
    by (simp only: all1 nth_append_length)
  have b: "handles s4 ! length (handles s2) = fp"
    by (simp only: all2 nth_append_length)
  have la: "length (handles s) < length (handles s4)"
    by (simp add: all1)
  have lb: "length (handles s2) < length (handles s4)"
    by (simp add: all2)
  have "handles s4 ! length (handles s) = handles s4 ! length (handles s2)"
    by (simp only: a b)
  with la lb have g: "get_result s4 (length (handles s)) = get_result s4 (length (handles s2))"
    by (rule get_result_same_fingerprint)
  show "count_list (started (serve_all s (Submit fp # es @ [Submit fp]))) fp
           = count_list (started s) fp + 1"
    by (simp only: run s3(1) s2(2) s1(2))
  show "get_result (serve_all (serve_all s (Submit fp # es @ [Submit fp])) later)
                        (length (handles s))
                    = get_result (serve_all (serve_all s (Submit fp # es @ [Submit fp])) later)
                        (length (handles (serve_all s (Submit fp # es))))"
    using g by (simp only: run run2 s4_def)
qed

text \<open>
  C8. In every state the service reaches from its start, a fingerprint has at most one
  computation in flight. When a fingerprint that is neither cached nor in flight is
  submitted, and submitted again before its computation finishes (whatever other events
  come between), exactly one computation is started for it, and at every later moment
  the handles of the two submissions read the same result.
\<close>

theorem one_computation_per_fingerprint:
  "count_list (in_flight (serve_all empty_service es0)) fp \<le> 1
   \<and> (cache s fp = None \<and> fp \<notin> set (in_flight s) \<and> (\<forall>e\<in>set es. \<not> finishes fp e) \<longrightarrow>
        count_list (started (serve_all s (Submit fp # es @ [Submit fp]))) fp
          = count_list (started s) fp + 1
        \<and> (\<forall>later. get_result (serve_all (serve_all s (Submit fp # es @ [Submit fp])) later)
                        (length (handles s))
                    = get_result (serve_all (serve_all s (Submit fp # es @ [Submit fp])) later)
                        (length (handles (serve_all s (Submit fp # es))))))"
proof -
  have "distinct (in_flight (serve_all empty_service es0))"
    by (rule serve_all_distinct) (simp add: empty_service_def)
  then have one: "count_list (in_flight (serve_all empty_service es0)) fp \<le> 1"
    by (rule count_list_distinct)
  from one two_submissions [of s fp es] show ?thesis by blast
qed


theorem one_computation_per_fingerprint_witness:
  "count_list (started (serve_all empty_service
       [Submit (suwon_address, ''house''), Submit (ascii ''Busan'', ''house''),
        Submit (suwon_address, ''house'')])) (suwon_address, ''house'') = 1
   \<and> (\<forall>later. get_result (serve_all (serve_all empty_service
          [Submit (suwon_address, ''house''), Submit (ascii ''Busan'', ''house''),
           Submit (suwon_address, ''house'')]) later) 0
        = get_result (serve_all (serve_all empty_service
          [Submit (suwon_address, ''house''), Submit (ascii ''Busan'', ''house''),
           Submit (suwon_address, ''house'')]) later) 2)"
proof -
  let ?fp = "(suwon_address, ''house'')"
  let ?es = "[Submit (ascii ''Busan'', ''house'')]"
  have h: "cache empty_service ?fp = None \<and> ?fp \<notin> set (in_flight empty_service)
           \<and> (\<forall>e\<in>set ?es. \<not> finishes ?fp e)"
    by (simp add: empty_service_def)
  have n: "length (handles empty_service) = 0"
    "length (handles (serve_all empty_service (Submit ?fp # ?es))) = 2"
    "count_list (started empty_service) ?fp = 0"
    by (simp_all add: empty_service_def serve_all_def Let_def)
  from one_computation_per_fingerprint [of "[]" ?fp empty_service ?es] h
  have "count_list (started (serve_all empty_service (Submit ?fp # ?es @ [Submit ?fp]))) ?fp
          = count_list (started empty_service) ?fp + 1
        \<and> (\<forall>later. get_result (serve_all (serve_all empty_service
                         (Submit ?fp # ?es @ [Submit ?fp])) later)
                        (length (handles empty_service))
                    = get_result (serve_all (serve_all empty_service
                         (Submit ?fp # ?es @ [Submit ?fp])) later)
                        (length (handles (serve_all empty_service (Submit ?fp # ?es)))))"
    by blast
  then show ?thesis by (simp only: n append.simps) simp
qed

end
